theory Spec2Isabelle
  imports Main "HOL-Library.Word"
begin

unbundle bit_operations_syntax

section \<open>Machine state (emulator.h)\<close>

type_synonym u8 = "8 word"
type_synonym u16 = "16 word"
type_synonym u32 = "32 word"
type_synonym u64 = "64 word"

text \<open>
  \<^verbatim>\<open>enum Register\<close>: the eight general-purpose registers in the order of the REG field of
  a ModR/M byte. The C enumerators are plain integers used as array indices.
\<close>

definition EAX :: nat where "EAX = 0"
definition ECX :: nat where "ECX = 1"
definition EDX :: nat where "EDX = 2"
definition EBX :: nat where "EBX = 3"
definition ESP :: nat where "ESP = 4"
definition ESI :: nat where "ESI = 6"
definition EDI :: nat where "EDI = 7"
definition REGISTERS_COUNT :: nat where "REGISTERS_COUNT = 8"

record Gdtr =
  limit :: u16
  base :: u32

text \<open>
  \<^verbatim>\<open>struct Emulator\<close>. The arrays are lists; \<^verbatim>\<open>uint8_t *memory\<close> is the byte found at
  each 32-bit offset from the start of the buffer (every index the code computes is a
  \<^verbatim>\<open>uint32_t\<close>). The size of the buffer is chosen by the loader and is not part of this
  core, which does no bounds check of its own.
\<close>

record Emulator =
  eflags :: u32
  registers :: "u32 list"
  segment_registers :: "u16 list"
  control_registers :: "u32 list"
  memory :: "u32 \<Rightarrow> u8"
  eip :: u32
  gdtr :: Gdtr
  exception :: u8

text \<open>The register file has \<^verbatim>\<open>REGISTERS_COUNT\<close> entries.\<close>

definition regs_ok :: "Emulator \<Rightarrow> bool" where
  "regs_ok emu = (length (registers emu) = REGISTERS_COUNT)"

section \<open>Accessors (emulator_functions.h)\<close>

text \<open>
  instructions.c includes \<^verbatim>\<open>emulator_functions.h\<close>, but the functions it declares are
  not among the source files. Each is written from section 4.3 of the specification:
  the reads from the instruction stream take an offset from the current \<^verbatim>\<open>eip\<close> and do
  not move \<^verbatim>\<open>eip\<close>; multi-byte values are little-endian (section 6).
\<close>

text \<open>Modelled from the spec: \<^verbatim>\<open>get_code8\<close>, the unsigned byte at \<^verbatim>\<open>eip + index\<close>.\<close>

definition get_code8 :: "Emulator \<Rightarrow> u32 \<Rightarrow> u8" where
  "get_code8 emu index = memory emu (eip emu + index)"

text \<open>
  Modelled from the spec: \<^verbatim>\<open>get_sign_code8\<close>, the same byte as an \<^verbatim>\<open>int8_t\<close>; a caller
  that widens it sign-extends (\<open>scast\<close>).
\<close>

definition get_sign_code8 :: "Emulator \<Rightarrow> u32 \<Rightarrow> u8" where
  "get_sign_code8 emu index = memory emu (eip emu + index)"

text \<open>Modelled from the spec: \<^verbatim>\<open>get_code32\<close>, four bytes from \<^verbatim>\<open>eip + index\<close>.\<close>

definition get_code32 :: "Emulator \<Rightarrow> u32 \<Rightarrow> u32" where
  "get_code32 emu index =
     ucast (get_code8 emu index)
       OR push_bit 8 (ucast (get_code8 emu (index + 1)))
       OR push_bit 16 (ucast (get_code8 emu (index + 2)))
       OR push_bit 24 (ucast (get_code8 emu (index + 3)))"

text \<open>Modelled from the spec: \<^verbatim>\<open>get_sign_code32\<close>, the same word as an \<^verbatim>\<open>int32_t\<close>.\<close>

definition get_sign_code32 :: "Emulator \<Rightarrow> u32 \<Rightarrow> u32" where
  "get_sign_code32 emu index = get_code32 emu index"

text \<open>
  Modelled from the spec: \<^verbatim>\<open>get_register32\<close> and \<^verbatim>\<open>set_register32\<close>, a register by
  index. C does not check the index; every index that a handler passes for an opcode
  bound in the table, or takes from a 3-bit ModR/M field, is below 8.
\<close>

definition get_register32 :: "Emulator \<Rightarrow> nat \<Rightarrow> u32" where
  "get_register32 emu index = registers emu ! index"

definition set_register32 :: "Emulator \<Rightarrow> nat \<Rightarrow> u32 \<Rightarrow> Emulator" where
  "set_register32 emu index v = emu\<lparr>registers := (registers emu)[index := v]\<rparr>"

text \<open>Modelled from the spec: \<^verbatim>\<open>get_memory8\<close> and \<^verbatim>\<open>get_memory32\<close>, reads of memory.\<close>

definition get_memory8 :: "Emulator \<Rightarrow> u32 \<Rightarrow> u8" where
  "get_memory8 emu address = memory emu address"

definition get_memory32 :: "Emulator \<Rightarrow> u32 \<Rightarrow> u32" where
  "get_memory32 emu address =
     ucast (get_memory8 emu address)
       OR push_bit 8 (ucast (get_memory8 emu (address + 1)))
       OR push_bit 16 (ucast (get_memory8 emu (address + 2)))
       OR push_bit 24 (ucast (get_memory8 emu (address + 3)))"

text \<open>Modelled from the spec: \<^verbatim>\<open>set_memory8\<close> and \<^verbatim>\<open>set_memory32\<close>, writes of memory.\<close>

definition set_memory8 :: "Emulator \<Rightarrow> u32 \<Rightarrow> u8 \<Rightarrow> Emulator" where
  "set_memory8 emu address v = emu\<lparr>memory := (memory emu)(address := v)\<rparr>"

definition set_memory32 :: "Emulator \<Rightarrow> u32 \<Rightarrow> u32 \<Rightarrow> Emulator" where
  "set_memory32 emu address v =
     set_memory8
       (set_memory8
         (set_memory8
           (set_memory8 emu address (ucast v))
           (address + 1) (ucast (drop_bit 8 v)))
         (address + 2) (ucast (drop_bit 16 v)))
       (address + 3) (ucast (drop_bit 24 v))"

text \<open>
  Modelled from the spec: \<^verbatim>\<open>push32\<close>, which is not among the source files. Section 4.3:
  decrement \<^verbatim>\<open>ESP\<close> by 4, then store.
\<close>

definition push32 :: "Emulator \<Rightarrow> u32 \<Rightarrow> Emulator" where
  "push32 emu v =
     (let address = get_register32 emu ESP - 4;
          emu1 = set_register32 emu ESP address
      in set_memory32 emu1 address v)"

text \<open>
  Modelled from the spec: \<^verbatim>\<open>pop32\<close>, which is not among the source files. Section 4.3:
  load, then increment \<^verbatim>\<open>ESP\<close> by 4. The result is the value and the new state.
\<close>

definition pop32 :: "Emulator \<Rightarrow> u32 \<times> Emulator" where
  "pop32 emu =
     (let address = get_register32 emu ESP;
          v = get_memory32 emu address
      in (v, set_register32 emu ESP (address + 4)))"

section \<open>Flag evaluator (emulator_functions.h)\<close>

text \<open>
  Modelled from the spec: the masks of the four flags, which no source file defines.
  Section 3 and the layout comment of emulator.h: carry is bit 0, zero bit 6, sign bit 7,
  overflow bit 11.
\<close>

definition CARRY_FLAG :: u32 where "CARRY_FLAG = 1"
definition ZERO_FLAG :: u32 where "ZERO_FLAG = push_bit 6 1"
definition SIGN_FLAG :: u32 where "SIGN_FLAG = push_bit 7 1"
definition OVERFLOW_FLAG :: u32 where "OVERFLOW_FLAG = push_bit 11 1"

text \<open>
  Modelled from the spec: the flag queries \<^verbatim>\<open>is_carry\<close>, \<^verbatim>\<open>is_zero\<close>, \<^verbatim>\<open>is_sign\<close> and
  \<^verbatim>\<open>is_overflow\<close>, which are not among the source files. Section 4.1: each reads one
  fixed bit of \<^verbatim>\<open>eflags\<close> and has no side effect.
\<close>

definition is_carry :: "Emulator \<Rightarrow> bool" where
  "is_carry emu = (eflags emu AND CARRY_FLAG \<noteq> 0)"

definition is_zero :: "Emulator \<Rightarrow> bool" where
  "is_zero emu = (eflags emu AND ZERO_FLAG \<noteq> 0)"

definition is_sign :: "Emulator \<Rightarrow> bool" where
  "is_sign emu = (eflags emu AND SIGN_FLAG \<noteq> 0)"

definition is_overflow :: "Emulator \<Rightarrow> bool" where
  "is_overflow emu = (eflags emu AND OVERFLOW_FLAG \<noteq> 0)"

text \<open>
  Modelled from the spec: setting or clearing one flag bit of \<^verbatim>\<open>eflags\<close>, the step that
  section 4.1 describes as "sets/clears the four bits"; the other bits are kept.
\<close>

definition set_flag :: "u32 \<Rightarrow> Emulator \<Rightarrow> bool \<Rightarrow> Emulator" where
  "set_flag flag emu b =
     (if b then emu\<lparr>eflags := eflags emu OR flag\<rparr>
      else emu\<lparr>eflags := eflags emu AND NOT flag\<rparr>)"

text \<open>
  Modelled from the spec: \<^verbatim>\<open>update_eflags_sub\<close>, which is not among the source files.
  Section 4.1: from the two operands of a subtraction and the result computed at more
  than 32 bits (the handlers of instructions.c pass a \<^verbatim>\<open>uint64_t\<close>):
  zero = the result truncated to 32 bits is 0; sign = bit 31 of the truncated result;
  carry = the result is negative at 33-bit precision, that is, its bit 32 is set;
  overflow = the operands differ in sign and the truncated result's sign differs from
  the first operand's. The other bits of \<^verbatim>\<open>eflags\<close> are not written.
\<close>

definition update_eflags_sub :: "Emulator \<Rightarrow> u32 \<Rightarrow> u32 \<Rightarrow> u64 \<Rightarrow> Emulator" where
  "update_eflags_sub emu v1 v2 result =
     (let sign1 = bit v1 31;
          sign2 = bit v2 31;
          truncated = (ucast result :: u32);
          signr = bit truncated 31;
          emu1 = set_flag CARRY_FLAG emu (bit result 32);
          emu2 = set_flag ZERO_FLAG emu1 (truncated = 0);
          emu3 = set_flag SIGN_FLAG emu2 signr
      in set_flag OVERFLOW_FLAG emu3 (sign1 \<noteq> sign2 \<and> sign1 \<noteq> signr))"

text \<open>The four bits that \<^verbatim>\<open>update_eflags_sub\<close> writes, as one mask.\<close>

definition ARITH_FLAGS :: u32 where
  "ARITH_FLAGS = CARRY_FLAG OR ZERO_FLAG OR SIGN_FLAG OR OVERFLOW_FLAG"

section \<open>ModR/M (modrm.h)\<close>

text \<open>
  Modelled from the spec: the type \<^verbatim>\<open>ModRM\<close> of \<^verbatim>\<open>modrm.h\<close>, which is not among the
  source files. Section 3: the fields \<^verbatim>\<open>mod\<close> (2 bits), \<^verbatim>\<open>opcode\<close>, also read as the
  register selector (3 bits), and \<^verbatim>\<open>rm\<close> (3 bits), the decoded displacement, and the
  number of bytes consumed. instructions.c reads the field \<^verbatim>\<open>opcode\<close> only; \<^verbatim>\<open>mod\<close> is
  written \<open>mod'\<close> here.
\<close>

record ModRM =
  mod' :: u8
  opcode :: u8
  rm :: u8
  disp :: u32
  consumed :: u32


text \<open>
  Modelled from the spec: \<^verbatim>\<open>parse_modrm\<close>, which is not among the source files.
  Sections 4.2 and 6: the state is positioned so that the next unread byte, at offset 0
  from \<^verbatim>\<open>eip\<close>, is the ModR/M byte; bits 7-6 are \<^verbatim>\<open>mod\<close>, bits 5-3 the reg/opcode
  field, bits 2-0 \<^verbatim>\<open>rm\<close>; \<^verbatim>\<open>mod\<close> = 1 is followed by a signed 8-bit displacement,
  \<^verbatim>\<open>mod\<close> = 2 by a 32-bit one, and no other addressing form is decoded. The decoder
  returns the decode result, with the number of bytes it consumed, without itself
  advancing \<^verbatim>\<open>eip\<close>. The C function takes the pointer \<^verbatim>\<open>emu\<close>, so the state is returned
  with the result; it is the state that came in.
\<close>

definition parse_modrm :: "Emulator \<Rightarrow> Emulator \<times> ModRM" where
  "parse_modrm emu =
     (let code = get_code8 emu 0;
          m = drop_bit 6 code;
          op = take_bit 3 (drop_bit 3 code);
          r = take_bit 3 code
      in if m = 1 then
           (emu, \<lparr>mod' = m, opcode = op, rm = r,
                  disp = scast (get_sign_code8 emu 1), consumed = 2\<rparr>)
         else if m = 2 then
           (emu, \<lparr>mod' = m, opcode = op, rm = r,
                  disp = get_sign_code32 emu 1, consumed = 5\<rparr>)
         else
           (emu, \<lparr>mod' = m, opcode = op, rm = r, disp = 0, consumed = 1\<rparr>))"

text \<open>
  Modelled from the spec: \<^verbatim>\<open>calc_memory_address\<close>, which is not among the source files.
  Section 4.2: the memory operand is at the register named by \<^verbatim>\<open>rm\<close> plus the
  displacement (0 when \<^verbatim>\<open>mod\<close> selects none).
\<close>

definition calc_memory_address :: "Emulator \<Rightarrow> ModRM \<Rightarrow> u32" where
  "calc_memory_address emu modrm = get_register32 emu (unat (rm modrm)) + disp modrm"

text \<open>
  Modelled from the spec: \<^verbatim>\<open>get_rm32\<close> and \<^verbatim>\<open>set_rm32\<close>, which are not among the source
  files. Section 4.2: with \<^verbatim>\<open>mod\<close> = 3 the operand is the register named by \<^verbatim>\<open>rm\<close>;
  otherwise it is the 32-bit memory location of \<^verbatim>\<open>calc_memory_address\<close>.
\<close>

definition get_rm32 :: "Emulator \<Rightarrow> ModRM \<Rightarrow> u32" where
  "get_rm32 emu modrm =
     (if mod' modrm = 3 then get_register32 emu (unat (rm modrm))
      else get_memory32 emu (calc_memory_address emu modrm))"

definition set_rm32 :: "Emulator \<Rightarrow> ModRM \<Rightarrow> u32 \<Rightarrow> Emulator" where
  "set_rm32 emu modrm v =
     (if mod' modrm = 3 then set_register32 emu (unat (rm modrm)) v
      else set_memory32 emu (calc_memory_address emu modrm) v)"

text \<open>
  Modelled from the spec: \<^verbatim>\<open>get_r32\<close> and \<^verbatim>\<open>set_r32\<close>, which are not among the source
  files: the register named by the reg field of the ModR/M byte.
\<close>

definition get_r32 :: "Emulator \<Rightarrow> ModRM \<Rightarrow> u32" where
  "get_r32 emu modrm = get_register32 emu (unat (opcode modrm))"

definition set_r32 :: "Emulator \<Rightarrow> ModRM \<Rightarrow> u32 \<Rightarrow> Emulator" where
  "set_r32 emu modrm v = set_register32 emu (unat (opcode modrm)) v"

section \<open>Instruction handlers (instructions.c)\<close>







definition add_rm32_r32 :: "Emulator \<Rightarrow> Emulator" where
  "add_rm32_r32 emu =
     (let emu1 = emu\<lparr>eip := eip emu + 1\<rparr>;
          (emu2, modrm) = parse_modrm emu1;
          r32 = get_r32 emu2 modrm;
          rm32 = get_rm32 emu2 modrm
      in set_rm32 emu2 modrm (r32 + rm32))"

definition add_rm32_imm8 :: "Emulator \<Rightarrow> ModRM \<Rightarrow> Emulator" where
  "add_rm32_imm8 emu modrm =
     (let rm32 = get_rm32 emu modrm;
          imm8 = (scast (get_sign_code8 emu 0) :: u32);
          emu1 = emu\<lparr>eip := eip emu + 1\<rparr>
      in set_rm32 emu1 modrm (rm32 + imm8))"

definition sub_rm32_imm8 :: "Emulator \<Rightarrow> ModRM \<Rightarrow> Emulator" where
  "sub_rm32_imm8 emu modrm =
     (let rm32 = get_rm32 emu modrm;
          imm8 = (scast (get_sign_code8 emu 0) :: u32);
          emu1 = emu\<lparr>eip := eip emu + 1\<rparr>;
          result = (ucast rm32 - ucast imm8 :: u64);
          emu2 = set_rm32 emu1 modrm (ucast result)
      in update_eflags_sub emu2 rm32 imm8 result)"

definition cmp_rm32_imm8 :: "Emulator \<Rightarrow> ModRM \<Rightarrow> Emulator" where
  "cmp_rm32_imm8 emu modrm =
     (let rm32 = get_rm32 emu modrm;
          imm8 = (scast (get_sign_code8 emu 0) :: u32);
          emu1 = emu\<lparr>eip := eip emu + 1\<rparr>;
          result = (ucast rm32 - ucast imm8 :: u64)
      in update_eflags_sub emu1 rm32 imm8 result)"


text \<open>
  The \<^verbatim>\<open>default\<close> branch of a group switch prints
  \<^verbatim>\<open>Not implemented: Op: 83 with ModR/M Op: %d\<close> (or \<^verbatim>\<open>FF\<close>) and calls \<^verbatim>\<open>exit(1)\<close>:
  the error carries the group opcode and the sub-field, and no state comes back.
\<close>

datatype error = Not_implemented u8 u8

definition code_83 :: "Emulator \<Rightarrow> error + Emulator" where
  "code_83 emu =
     (let emu1 = emu\<lparr>eip := eip emu + 1\<rparr>;
          (emu2, modrm) = parse_modrm emu1
      in if opcode modrm = 0 then Inr (add_rm32_imm8 emu2 modrm)
         else if opcode modrm = 5 then Inr (sub_rm32_imm8 emu2 modrm)
         else if opcode modrm = 7 then Inr (cmp_rm32_imm8 emu2 modrm)
         else Inl (Not_implemented 0x83 (opcode modrm)))"

definition inc_rm32 :: "Emulator \<Rightarrow> ModRM \<Rightarrow> Emulator" where
  "inc_rm32 emu modrm =
     (let v = get_rm32 emu modrm
      in set_rm32 emu modrm (v + 1))"

definition code_ff :: "Emulator \<Rightarrow> error + Emulator" where
  "code_ff emu =
     (let emu1 = emu\<lparr>eip := eip emu + 1\<rparr>;
          (emu2, modrm) = parse_modrm emu1
      in if opcode modrm = 0 then Inr (inc_rm32 emu2 modrm)
         else Inl (Not_implemented 0xFF (opcode modrm)))"





definition call_rel32 :: "Emulator \<Rightarrow> Emulator" where
  "call_rel32 emu =
     (let offset = get_sign_code32 emu 1;
          emu1 = push32 emu (eip emu + 5)
      in emu1\<lparr>eip := eip emu1 + (offset + 5)\<rparr>)"

definition ret :: "Emulator \<Rightarrow> Emulator" where
  "ret emu = (let (v, emu1) = pop32 emu in emu1\<lparr>eip := v\<rparr>)"


subsection \<open>Conditional jumps, short form\<close>

text \<open>
  The two functions that the macro \<^verbatim>\<open>DEFINE_JX(flag, is_flag)\<close> expands to, with the flag
  query as a parameter: \<^verbatim>\<open>j##flag\<close> and \<^verbatim>\<open>jn##flag\<close>. The displacement is read only in
  the branch of the conditional expression that is taken.
\<close>

definition DEFINE_JX_j :: "(Emulator \<Rightarrow> bool) \<Rightarrow> Emulator \<Rightarrow> Emulator" where
  "DEFINE_JX_j is_flag emu =
     (let diff = (if is_flag emu then scast (get_sign_code8 emu 1) else 0 :: u32)
      in emu\<lparr>eip := eip emu + (diff + 2)\<rparr>)"

definition DEFINE_JX_jn :: "(Emulator \<Rightarrow> bool) \<Rightarrow> Emulator \<Rightarrow> Emulator" where
  "DEFINE_JX_jn is_flag emu =
     (let diff = (if is_flag emu then 0 else scast (get_sign_code8 emu 1) :: u32)
      in emu\<lparr>eip := eip emu + (diff + 2)\<rparr>)"

definition jc :: "Emulator \<Rightarrow> Emulator" where "jc = DEFINE_JX_j is_carry"
definition jnc :: "Emulator \<Rightarrow> Emulator" where "jnc = DEFINE_JX_jn is_carry"
definition jz :: "Emulator \<Rightarrow> Emulator" where "jz = DEFINE_JX_j is_zero"
definition jnz :: "Emulator \<Rightarrow> Emulator" where "jnz = DEFINE_JX_jn is_zero"
definition js :: "Emulator \<Rightarrow> Emulator" where "js = DEFINE_JX_j is_sign"
definition jns :: "Emulator \<Rightarrow> Emulator" where "jns = DEFINE_JX_jn is_sign"
definition jo :: "Emulator \<Rightarrow> Emulator" where "jo = DEFINE_JX_j is_overflow"
definition jno :: "Emulator \<Rightarrow> Emulator" where "jno = DEFINE_JX_jn is_overflow"

definition jl :: "Emulator \<Rightarrow> Emulator" where
  "jl emu =
     (let diff = (if is_sign emu \<noteq> is_overflow emu
                  then scast (get_sign_code8 emu 1) else 0 :: u32)
      in emu\<lparr>eip := eip emu + (diff + 2)\<rparr>)"

definition jle :: "Emulator \<Rightarrow> Emulator" where
  "jle emu =
     (let diff = (if is_zero emu \<or> is_sign emu \<noteq> is_overflow emu
                  then scast (get_sign_code8 emu 1) else 0 :: u32)
      in emu\<lparr>eip := eip emu + (diff + 2)\<rparr>)"

subsection \<open>Conditional jumps, near form (the source file of the near jumps)\<close>

text \<open>The two functions of \<^verbatim>\<open>DEFINE_NEAR_JX(flag, is_flag)\<close>: \<^verbatim>\<open>j##flag##32\<close> and
  \<^verbatim>\<open>jn##flag##32\<close>.\<close>

definition DEFINE_NEAR_JX_j :: "(Emulator \<Rightarrow> bool) \<Rightarrow> Emulator \<Rightarrow> Emulator" where
  "DEFINE_NEAR_JX_j is_flag emu =
     (let diff = (if is_flag emu then get_sign_code32 emu 2 else 0)
      in emu\<lparr>eip := eip emu + (diff + 6)\<rparr>)"

definition DEFINE_NEAR_JX_jn :: "(Emulator \<Rightarrow> bool) \<Rightarrow> Emulator \<Rightarrow> Emulator" where
  "DEFINE_NEAR_JX_jn is_flag emu =
     (let diff = (if is_flag emu then 0 else get_sign_code32 emu 2)
      in emu\<lparr>eip := eip emu + (diff + 6)\<rparr>)"

definition jc32 :: "Emulator \<Rightarrow> Emulator" where "jc32 = DEFINE_NEAR_JX_j is_carry"
definition jnc32 :: "Emulator \<Rightarrow> Emulator" where "jnc32 = DEFINE_NEAR_JX_jn is_carry"
definition jz32 :: "Emulator \<Rightarrow> Emulator" where "jz32 = DEFINE_NEAR_JX_j is_zero"
definition jnz32 :: "Emulator \<Rightarrow> Emulator" where "jnz32 = DEFINE_NEAR_JX_jn is_zero"

definition jna32 :: "Emulator \<Rightarrow> Emulator" where
  "jna32 emu =
     (let diff = (if is_carry emu \<or> is_zero emu then get_sign_code32 emu 2 else 0)
      in emu\<lparr>eip := eip emu + (diff + 6)\<rparr>)"

definition ja32 :: "Emulator \<Rightarrow> Emulator" where
  "ja32 emu =
     (let diff = (if \<not> is_carry emu \<and> \<not> is_zero emu then get_sign_code32 emu 2 else 0)
      in emu\<lparr>eip := eip emu + (diff + 6)\<rparr>)"

definition jg32 :: "Emulator \<Rightarrow> Emulator" where
  "jg32 emu =
     (let diff = (if \<not> is_zero emu \<and> is_sign emu = is_overflow emu
                  then get_sign_code32 emu 2 else 0)
      in emu\<lparr>eip := eip emu + (diff + 6)\<rparr>)"

section \<open>Dispatch table (instructions.c)\<close>

text \<open>
  The table holds function pointers. A handler is named by a constructor, one for each
  handler function of the two source files, and \<open>run\<close> calls the function that the
  name stands for. \<^verbatim>\<open>NULL\<close> is \<open>None\<close>.
\<close>

datatype instruction_func_t =
    H_short_jump | H_near_jump
  | H_mov_r32_imm32 | H_mov_rm32_imm32 | H_mov_rm32_r32 | H_mov_r32_rm32
  | H_add_rm32_r32 | H_cmp_r32_rm32 | H_code_83 | H_code_ff
  | H_push_r32 | H_push_imm32 | H_push_imm8 | H_pop_r32
  | H_call_rel32 | H_ret | H_leave
  | H_jc | H_jnc | H_jz | H_jnz | H_js | H_jns | H_jo | H_jno | H_jl | H_jle
  | H_jc32 | H_jnc32 | H_jz32 | H_jnz32 | H_jna32 | H_ja32 | H_jg32


text \<open>The loop \<^verbatim>\<open>for (i = 0; i < 8; i++) instructions[first + i] = h;\<close>.\<close>

definition bind8 ::
  "nat \<Rightarrow> instruction_func_t \<Rightarrow> instruction_func_t option list \<Rightarrow> instruction_func_t option list"
where
  "bind8 first h table = fold (\<lambda>i t. t[first + i := Some h]) [0..<8] table"

text \<open>
  \<^verbatim>\<open>init_instructions\<close>: the 256 entries are cleared by \<^verbatim>\<open>memset\<close>, then bound in the
  order of the source. The result is the global array \<^verbatim>\<open>instructions\<close>.
\<close>

definition init_instructions :: "instruction_func_t option list" where
  "init_instructions =
     (let t = replicate 256 None;
          t = t[0x3B := Some H_cmp_r32_rm32];
          t = bind8 0x50 H_push_r32 t;
          t = bind8 0x58 H_pop_r32 t;
          t = t[0x68 := Some H_push_imm32];
          t = t[0x6A := Some H_push_imm8];
          t = t[0x70 := Some H_jo];
          t = t[0x71 := Some H_jno];
          t = t[0x72 := Some H_jc];
          t = t[0x73 := Some H_jnc];
          t = t[0x74 := Some H_jz];
          t = t[0x75 := Some H_jnz];
          t = t[0x78 := Some H_js];
          t = t[0x79 := Some H_jns];
          t = t[0x7C := Some H_jl];
          t = t[0x7E := Some H_jle];
          t = bind8 0xB8 H_mov_r32_imm32 t;
          t = t[0x01 := Some H_add_rm32_r32];
          t = t[0x83 := Some H_code_83];
          t = t[0x89 := Some H_mov_rm32_r32];
          t = t[0x8B := Some H_mov_r32_rm32];
          t = t[0xC7 := Some H_mov_rm32_imm32];
          t = t[0xE9 := Some H_near_jump];
          t = t[0xEB := Some H_short_jump];
          t = t[0xFF := Some H_code_ff];
          t = t[0xC3 := Some H_ret];
          t = t[0xE8 := Some H_call_rel32];
          t = t[0xC9 := Some H_leave]
      in t)"

text \<open>The entry of the table for an opcode byte.\<close>

definition instructions :: "u8 \<Rightarrow> instruction_func_t option" where
  "instructions code = init_instructions ! unat code"

section \<open>Encoded lengths and opcodes, as tabulated\<close>






text \<open>
  The opcode of each handler as its comment in instructions.c gives it
  (\<^verbatim>\<open>op (B8) + reg\<close>, \<^verbatim>\<open>op (C7)\<close>, \<^verbatim>\<open>jc (72), jnc (73), ...\<close>), with the three
  register-encoded ranges of eight opcodes each.
\<close>

definition opcode_table :: "u8 \<Rightarrow> instruction_func_t option" where
  "opcode_table code =
     (if code = 0x01 then Some H_add_rm32_r32
      else if code = 0x3B then Some H_cmp_r32_rm32
      else if 0x50 \<le> code \<and> code \<le> 0x57 then Some H_push_r32
      else if 0x58 \<le> code \<and> code \<le> 0x5F then Some H_pop_r32
      else if code = 0x68 then Some H_push_imm32
      else if code = 0x6A then Some H_push_imm8
      else if code = 0x70 then Some H_jo
      else if code = 0x71 then Some H_jno
      else if code = 0x72 then Some H_jc
      else if code = 0x73 then Some H_jnc
      else if code = 0x74 then Some H_jz
      else if code = 0x75 then Some H_jnz
      else if code = 0x78 then Some H_js
      else if code = 0x79 then Some H_jns
      else if code = 0x7C then Some H_jl
      else if code = 0x7E then Some H_jle
      else if code = 0x83 then Some H_code_83
      else if code = 0x89 then Some H_mov_rm32_r32
      else if code = 0x8B then Some H_mov_r32_rm32
      else if 0xB8 \<le> code \<and> code \<le> 0xBF then Some H_mov_r32_imm32
      else if code = 0xC3 then Some H_ret
      else if code = 0xC7 then Some H_mov_rm32_imm32
      else if code = 0xC9 then Some H_leave
      else if code = 0xE8 then Some H_call_rel32
      else if code = 0xE9 then Some H_near_jump
      else if code = 0xEB then Some H_short_jump
      else if code = 0xFF then Some H_code_ff
      else None)"

section \<open>Example states\<close>

text \<open>A cleared machine: all registers, flags and memory bytes are 0.\<close>

definition emu0 :: Emulator where
  "emu0 = \<lparr>eflags = 0, registers = replicate 8 0, segment_registers = replicate 6 0,
     control_registers = replicate 5 0, memory = (\<lambda>_. 0), eip = 0,
     gdtr = \<lparr>limit = 0, base = 0\<rparr>, exception = 0\<rparr>"

text \<open>
  \<^verbatim>\<open>call rel32\<close> with offset \<open>0x20\<close> at address \<open>0x10\<close>, stack pointer \<open>0x100\<close>.
\<close>

definition emu_call :: Emulator where
  "emu_call = emu0\<lparr>registers := [0, 0, 0, 0, 0x100, 0, 0, 0], eip := 0x10,
      memory := (\<lambda>_. 0)(0x10 := 0xE8, 0x11 := 0x20, 0x12 := 0, 0x13 := 0, 0x14 := 0)\<rparr>"




text \<open>\<^verbatim>\<open>add eax, 1\<close> (\<open>83 C0 01\<close>) with \<open>0xFFFFFFFF\<close> in \<^verbatim>\<open>EAX\<close> and the four flags set.\<close>

definition emu_add :: Emulator where
  "emu_add = emu0\<lparr>eflags := 0x8C1, registers := [0xFFFFFFFF, 0, 0, 0, 0x100, 0, 0, 0],
      memory := (\<lambda>_. 0)(0 := 0x83, 1 := 0xC0, 2 := 0x01)\<rparr>"



section \<open>What the accessors change\<close>

lemma set_register32_fields [simp]:
  "eip (set_register32 emu i v) = eip emu"
  "eflags (set_register32 emu i v) = eflags emu"
  "memory (set_register32 emu i v) = memory emu"
  "registers (set_register32 emu i v) = (registers emu)[i := v]"
  by (simp_all add: set_register32_def)

lemma set_memory8_fields [simp]:
  "eip (set_memory8 emu a v) = eip emu"
  "eflags (set_memory8 emu a v) = eflags emu"
  "registers (set_memory8 emu a v) = registers emu"
  "memory (set_memory8 emu a v) = (memory emu)(a := v)"
  by (simp_all add: set_memory8_def)

lemma set_memory32_fields [simp]:
  "eip (set_memory32 emu a v) = eip emu"
  "eflags (set_memory32 emu a v) = eflags emu"
  "registers (set_memory32 emu a v) = registers emu"
  by (simp_all add: set_memory32_def)

lemma bytes_of_word:
  fixes v :: u32
  shows "ucast (ucast v :: u8)
           OR push_bit 8 (ucast (ucast (drop_bit 8 v) :: u8))
           OR push_bit 16 (ucast (ucast (drop_bit 16 v) :: u8))
           OR push_bit 24 (ucast (ucast (drop_bit 24 v) :: u8)) = v"
  (is "?bytes = v")
proof (rule bit_eqI)
  fix n
  assume "possible_bit TYPE(u32) n"
  then have "n < 32" by (simp add: possible_bit_word)
  then consider "n < 8" | "8 \<le> n" "n < 16" | "16 \<le> n" "n < 24" | "24 \<le> n" "n < 32"
    by linarith
  then show "bit ?bytes n = bit v n"
    by cases (auto simp add: bit_simps)
qed

lemma get_memory32_set_memory32 [simp]:
  "get_memory32 (set_memory32 emu a v) a = v"
  by (simp add: get_memory32_def set_memory32_def get_memory8_def bytes_of_word)

lemma get_memory32_cong:
  "memory e1 = memory e2 \<Longrightarrow> get_memory32 e1 a = get_memory32 e2 a"
  by (simp add: get_memory32_def get_memory8_def)

lemma set_rm32_fields [simp]:
  "eip (set_rm32 emu modrm v) = eip emu"
  "eflags (set_rm32 emu modrm v) = eflags emu"
  by (simp_all add: set_rm32_def)

lemma set_r32_fields [simp]:
  "eip (set_r32 emu modrm v) = eip emu"
  "eflags (set_r32 emu modrm v) = eflags emu"
  by (simp_all add: set_r32_def)

lemma push32_fields [simp]:
  "eip (push32 emu v) = eip emu"
  "eflags (push32 emu v) = eflags emu"
  "registers (push32 emu v) = (registers emu)[ESP := get_register32 emu ESP - 4]"
  by (simp_all add: push32_def Let_def)

lemma pop32_fields [simp]:
  "eip (snd (pop32 emu)) = eip emu"
  "eflags (snd (pop32 emu)) = eflags emu"
  "memory (snd (pop32 emu)) = memory emu"
  "registers (snd (pop32 emu)) = (registers emu)[ESP := get_register32 emu ESP + 4]"
  "fst (pop32 emu) = get_memory32 emu (get_register32 emu ESP)"
  by (simp_all add: pop32_def Let_def)

lemma set_flag_fields [simp]:
  "eip (set_flag f emu b) = eip emu"
  "registers (set_flag f emu b) = registers emu"
  "memory (set_flag f emu b) = memory emu"
  by (simp_all add: set_flag_def)

lemma update_eflags_sub_fields [simp]:
  "eip (update_eflags_sub emu a b r) = eip emu"
  "registers (update_eflags_sub emu a b r) = registers emu"
  "memory (update_eflags_sub emu a b r) = memory emu"
  by (simp_all add: update_eflags_sub_def Let_def)

lemma eflags_update_eflags_sub_cong:
  "eflags e1 = eflags e2 \<Longrightarrow>
   eflags (update_eflags_sub e1 a b r) = eflags (update_eflags_sub e2 a b r)"
  by (simp add: update_eflags_sub_def Let_def set_flag_def)

lemma parse_modrm_fields [simp]:
  "eflags (fst (parse_modrm emu)) = eflags emu"
  "registers (fst (parse_modrm emu)) = registers emu"
  "memory (fst (parse_modrm emu)) = memory emu"
  by (simp_all add: parse_modrm_def Let_def)



section \<open>Flags of a subtraction\<close>

lemma uint_sub64:
  fixes a b :: u32
  shows "uint (ucast a - ucast b :: u64) = (uint a - uint b) mod 2 ^ 64"
  unfolding uint_word_ariths
  by (simp only: uint_up_ucast is_up len_of_numeral_defs) simp

lemma borrow_odd:
  fixes x y :: int
  assumes "0 \<le> x" "x < 4294967296" "0 \<le> y" "y < 4294967296"
  shows "odd (((x - y) mod 18446744073709551616) div 4294967296) \<longleftrightarrow> x < y"
proof (cases "x < y")
  case True
  have "(x - y) mod 18446744073709551616
          = (x - y + 18446744073709551616) mod 18446744073709551616"
    by simp
  also have "\<dots> = x - y + 18446744073709551616"
    using assms True by (intro mod_pos_pos_trivial) simp_all
  finally have m: "(x - y) mod 18446744073709551616 = x - y + 18446744073709551616" .
  have "(x - y + 18446744073709551616) div 4294967296 = 4294967295"
    using assms True by (intro int_div_pos_eq [where r = "x - y + 4294967296"]) simp_all
  with m True show ?thesis by simp
next
  case False
  then have "(x - y) mod 18446744073709551616 = x - y"
    using assms by (intro mod_pos_pos_trivial) simp_all
  moreover have "(x - y) div 4294967296 = 0"
    using assms False by (intro div_pos_pos_trivial) simp_all
  ultimately show ?thesis using False by simp
qed

text \<open>Bit 32 of the 64-bit difference is the borrow.\<close>

lemma sub64_bit32:
  fixes a b :: u32
  shows "bit (ucast a - ucast b :: u64) 32 \<longleftrightarrow> a < b"
proof -
  have ba: "0 \<le> uint a" "uint a < 4294967296" and bb: "0 \<le> uint b" "uint b < 4294967296"
    using uint_bounded [of b] uint_bounded [of a] by simp_all
  have "bit (ucast a - ucast b :: u64) 32 \<longleftrightarrow> bit (uint (ucast a - ucast b :: u64)) 32"
    by (simp add: bit_uint_iff)
  also have "\<dots> \<longleftrightarrow> odd (uint (ucast a - ucast b :: u64) div 2 ^ 32)"
    by (rule bit_iff_odd)
  also have "\<dots> \<longleftrightarrow> uint a < uint b"
    unfolding uint_sub64 using borrow_odd [OF ba bb] by simp
  finally show ?thesis by (simp add: word_less_def)
qed

text \<open>Truncating the 64-bit difference gives the 32-bit difference.\<close>

lemma ucast_sub64:
  fixes a b :: u32
  shows "(ucast (ucast a - ucast b :: u64) :: u32) = a - b"
proof -
  have d: "(2::int) ^ 32 dvd 2 ^ 64"
    by (rule le_imp_power_dvd) simp
  have "uint (ucast (ucast a - ucast b :: u64) :: u32)
          = uint (ucast a - ucast b :: u64) mod 2 ^ 32"
    by (simp add: unsigned_ucast_eq take_bit_eq_mod)
  also have "\<dots> = (uint a - uint b) mod 2 ^ 32"
    unfolding uint_sub64 by (rule mod_mod_cancel [OF d])
  also have "\<dots> = uint (a - b)"
    by (simp add: uint_word_ariths)
  finally show ?thesis by (rule word_uint_eqI)
qed

lemma bit_set_flag:
  "bit (eflags (set_flag (push_bit k 1) emu b)) n
     \<longleftrightarrow> (if n = k \<and> k < 32 then b else bit (eflags emu) n)"
  by (auto simp add: set_flag_def bit_simps bit_1_iff dest: bit_imp_le_length)

lemma flag_test: "k < 32 \<Longrightarrow> (w AND push_bit k 1 \<noteq> (0::u32)) \<longleftrightarrow> bit w k"
  by (simp add: push_bit_eq_mult and_exp_eq_0_iff_not_bit)

lemma CARRY_FLAG_push: "CARRY_FLAG = push_bit 0 1"
  by (simp add: CARRY_FLAG_def)

lemma is_carry_bit: "is_carry emu \<longleftrightarrow> bit (eflags emu) 0"
  unfolding is_carry_def CARRY_FLAG_push by (rule flag_test) simp

lemma is_zero_bit: "is_zero emu \<longleftrightarrow> bit (eflags emu) 6"
  unfolding is_zero_def ZERO_FLAG_def by (rule flag_test) simp

lemma is_sign_bit: "is_sign emu \<longleftrightarrow> bit (eflags emu) 7"
  unfolding is_sign_def SIGN_FLAG_def by (rule flag_test) simp

lemma is_overflow_bit: "is_overflow emu \<longleftrightarrow> bit (eflags emu) 11"
  unfolding is_overflow_def OVERFLOW_FLAG_def by (rule flag_test) simp

lemma bit_update_eflags_sub:
  "bit (eflags (update_eflags_sub emu v1 v2 r)) n \<longleftrightarrow>
     (if n = 11 then bit v1 31 \<noteq> bit v2 31 \<and> bit v1 31 \<noteq> bit (ucast r :: u32) 31
      else if n = 7 then bit (ucast r :: u32) 31
      else if n = 6 then (ucast r :: u32) = 0
      else if n = 0 then bit r 32
      else bit (eflags emu) n)"
  unfolding update_eflags_sub_def Let_def CARRY_FLAG_push ZERO_FLAG_def SIGN_FLAG_def
    OVERFLOW_FLAG_def
  by (simp only: bit_set_flag) simp

lemma bit_ARITH_FLAGS: "bit ARITH_FLAGS n \<longleftrightarrow> n = 0 \<or> n = 6 \<or> n = 7 \<or> n = 11"
  unfolding ARITH_FLAGS_def CARRY_FLAG_push ZERO_FLAG_def SIGN_FLAG_def OVERFLOW_FLAG_def
  by (simp only: bit_or_iff bit_push_bit_iff bit_1_iff) auto

text \<open>
  The overflow rule on the sign bits says that the difference of the operands, read as
  signed 32-bit numbers, does not fit in 32 bits.
\<close>

lemma sign_bit_sint:
  fixes w :: u32
  shows "bit w 31 \<longleftrightarrow> sint w < 0"
  using bit_last_iff [of w] by simp

lemma sint_u32_range:
  fixes w :: u32
  shows "- 2147483648 \<le> sint w" "sint w < 2147483648"
  using sint_ge [of w] sint_lt [of w] by simp_all

lemma sub_overflow_signed:
  fixes a b :: u32
  shows "(bit a 31 \<noteq> bit b 31 \<and> bit (a - b) 31 \<noteq> bit a 31)
     \<longleftrightarrow> \<not> (- 2147483648 \<le> sint a - sint b \<and> sint a - sint b < 2147483648)"
proof -
  define k where "k = sint a - sint b"
  define s where "s = sint (a - b)"
  have r: "s = signed_take_bit 31 k"
    by (simp add: s_def k_def sint_word_diff)
  note ra = sint_u32_range [of a] and rb = sint_u32_range [of b]
  have goal: "((sint a < 0) \<noteq> (sint b < 0) \<and> (s < 0) \<noteq> (sint a < 0))
     \<longleftrightarrow> \<not> (- 2147483648 \<le> k \<and> k < 2147483648)"
  proof -
    consider (fits) "- 2147483648 \<le> k" "k < 2147483648" | (high) "2147483648 \<le> k"
      | (low) "k < - 2147483648"
      by linarith
    then show ?thesis
    proof cases
      case fits
      then have "s = k"
        unfolding r by (intro signed_take_bit_int_eq_self) simp_all
      with fits ra rb show ?thesis
        unfolding k_def by auto
    next
      case high
      then have "signed_take_bit 31 k \<le> k - 2 ^ Suc 31"
        by (intro signed_take_bit_int_less_eq) simp
      then have "s \<le> k - 4294967296"
        unfolding r by simp
      with high ra rb show ?thesis
        unfolding k_def by auto
    next
      case low
      then have "k + 2 ^ Suc 31 \<le> signed_take_bit 31 k"
        by (intro signed_take_bit_int_greater_eq) simp
      then have "k + 4294967296 \<le> s"
        unfolding r by simp
      with low ra rb show ?thesis
        unfolding k_def by auto
    qed
  qed
  then show ?thesis
    unfolding sign_bit_sint s_def k_def .
qed

lemma ex_bits: "bit (5 - 10 :: u32) 31" "\<not> bit (5 :: u32) 31" "\<not> bit (10 :: u32) 31"
  by (simp_all add: sign_bit_sint)

text \<open>
  C1. For all unsigned 32-bit \<open>a\<close> and \<open>b\<close>, after \<^verbatim>\<open>update_eflags_sub(emu, a, b, a - b)\<close>
  with the difference computed in 64 bits as the handlers do: the zero flag (bit 6 of
  \<^verbatim>\<open>eflags\<close>) is set iff \<open>a = b\<close>; the carry flag (bit 0) iff \<open>a < b\<close> as unsigned
  values; the sign flag (bit 7) iff bit 31 of the 32-bit difference is set; the overflow
  flag (bit 11) iff \<open>a\<close> and \<open>b\<close> differ in their sign bits and the sign bit of the
  truncated result differs from that of \<open>a\<close>; outside these four bits \<^verbatim>\<open>eflags\<close> is
  unchanged. The four flag queries read the same bits, and the overflow flag is set iff
  the signed difference of \<open>a\<close> and \<open>b\<close> is outside the signed 32-bit range.
\<close>

theorem update_eflags_sub_flags:
  fixes a b :: u32
  shows
  "(bit (eflags (update_eflags_sub emu a b (ucast a - ucast b))) 6 \<longleftrightarrow> a = b)
   \<and> (bit (eflags (update_eflags_sub emu a b (ucast a - ucast b))) 0 \<longleftrightarrow> a < b)
   \<and> (bit (eflags (update_eflags_sub emu a b (ucast a - ucast b))) 7 \<longleftrightarrow> bit (a - b) 31)
   \<and> (bit (eflags (update_eflags_sub emu a b (ucast a - ucast b))) 11 \<longleftrightarrow>
         bit a 31 \<noteq> bit b 31 \<and> bit (a - b) 31 \<noteq> bit a 31)
   \<and> eflags (update_eflags_sub emu a b (ucast a - ucast b)) AND NOT ARITH_FLAGS
         = eflags emu AND NOT ARITH_FLAGS
   \<and> (is_zero (update_eflags_sub emu a b (ucast a - ucast b)) \<longleftrightarrow> a = b)
   \<and> (is_carry (update_eflags_sub emu a b (ucast a - ucast b)) \<longleftrightarrow> a < b)
   \<and> (is_sign (update_eflags_sub emu a b (ucast a - ucast b)) \<longleftrightarrow> bit (a - b) 31)
   \<and> (is_overflow (update_eflags_sub emu a b (ucast a - ucast b)) \<longleftrightarrow>
         bit a 31 \<noteq> bit b 31 \<and> bit (a - b) 31 \<noteq> bit a 31)
   \<and> (is_overflow (update_eflags_sub emu a b (ucast a - ucast b)) \<longleftrightarrow>
         \<not> (- 2147483648 \<le> sint a - sint b \<and> sint a - sint b < 2147483648))"
proof -
  let ?e = "update_eflags_sub emu a b (ucast a - ucast b)"
  have z: "bit (eflags ?e) 6 \<longleftrightarrow> a = b"
    by (simp add: bit_update_eflags_sub ucast_sub64)
  have c: "bit (eflags ?e) 0 \<longleftrightarrow> a < b"
    by (simp add: bit_update_eflags_sub sub64_bit32)
  have s: "bit (eflags ?e) 7 \<longleftrightarrow> bit (a - b) 31"
    by (simp add: bit_update_eflags_sub ucast_sub64)
  have o: "bit (eflags ?e) 11 \<longleftrightarrow> bit a 31 \<noteq> bit b 31 \<and> bit (a - b) 31 \<noteq> bit a 31"
    by (auto simp add: bit_update_eflags_sub ucast_sub64)
  have f: "eflags ?e AND NOT ARITH_FLAGS = eflags emu AND NOT ARITH_FLAGS"
    by (rule bit_eqI) (auto simp add: bit_simps bit_ARITH_FLAGS bit_update_eflags_sub)
  have o': "bit (eflags ?e) 11 \<longleftrightarrow>
      \<not> (- 2147483648 \<le> sint a - sint b \<and> sint a - sint b < 2147483648)"
    unfolding o by (rule sub_overflow_signed)
  show ?thesis
    unfolding is_zero_bit is_carry_bit is_sign_bit is_overflow_bit
    using z c s o o' f by blast
qed

text \<open>
  The example of the specification: \<open>a = 5\<close>, \<open>b = 10\<close> gives zero clear, carry set,
  sign set and overflow clear.
\<close>

theorem update_eflags_sub_flags_witness:
  "\<not> is_zero (update_eflags_sub emu0 5 10 (ucast (5 :: u32) - ucast (10 :: u32)))
   \<and> is_carry (update_eflags_sub emu0 5 10 (ucast (5 :: u32) - ucast (10 :: u32)))
   \<and> is_sign (update_eflags_sub emu0 5 10 (ucast (5 :: u32) - ucast (10 :: u32)))
   \<and> \<not> is_overflow (update_eflags_sub emu0 5 10 (ucast (5 :: u32) - ucast (10 :: u32)))"
  using update_eflags_sub_flags [of emu0 5 10]
  by (simp add: ex_bits)

section \<open>Conditional jumps\<close>

lemmas flag_query_defs = is_carry_def is_zero_def is_sign_def is_overflow_def
lemmas flag_defs = CARRY_FLAG_def ZERO_FLAG_def SIGN_FLAG_def OVERFLOW_FLAG_def

lemma flag_query_memory:
  "is_carry (emu\<lparr>memory := m\<rparr>) = is_carry emu"
  "is_zero (emu\<lparr>memory := m\<rparr>) = is_zero emu"
  "is_sign (emu\<lparr>memory := m\<rparr>) = is_sign emu"
  "is_overflow (emu\<lparr>memory := m\<rparr>) = is_overflow emu"
  by (simp_all add: flag_query_defs)

lemma DEFINE_JX_eip:
  "eip (DEFINE_JX_j is_flag emu)
     = eip emu + ((if is_flag emu then scast (get_sign_code8 emu 1) else 0) + 2)"
  "eip (DEFINE_JX_jn is_flag emu)
     = eip emu + ((if is_flag emu then 0 else scast (get_sign_code8 emu 1)) + 2)"
  by (simp_all add: DEFINE_JX_j_def DEFINE_JX_jn_def)

lemma DEFINE_NEAR_JX_eip:
  "eip (DEFINE_NEAR_JX_j is_flag emu)
     = eip emu + ((if is_flag emu then get_sign_code32 emu 2 else 0) + 6)"
  "eip (DEFINE_NEAR_JX_jn is_flag emu)
     = eip emu + ((if is_flag emu then 0 else get_sign_code32 emu 2) + 6)"
  by (simp_all add: DEFINE_NEAR_JX_j_def DEFINE_NEAR_JX_jn_def)

lemmas macro_jx_defs = jc_def jnc_def jz_def jnz_def js_def jns_def jo_def jno_def
  jc32_def jnc32_def jz32_def jnz32_def

text \<open>
  C3. For every conditional jump handler, short form (\<^verbatim>\<open>jc\<close>, \<^verbatim>\<open>jnc\<close>, \<^verbatim>\<open>jz\<close>, \<^verbatim>\<open>jnz\<close>,
  \<^verbatim>\<open>js\<close>, \<^verbatim>\<open>jns\<close>, \<^verbatim>\<open>jo\<close>, \<^verbatim>\<open>jno\<close>, \<^verbatim>\<open>jl\<close>, \<^verbatim>\<open>jle\<close>) and near form (\<^verbatim>\<open>jc32\<close>,
  \<^verbatim>\<open>jnc32\<close>, \<^verbatim>\<open>jz32\<close>, \<^verbatim>\<open>jnz32\<close>, \<^verbatim>\<open>jna32\<close>, \<^verbatim>\<open>ja32\<close>, \<^verbatim>\<open>jg32\<close>), and every state in
  which the condition the handler tests is false, \<^verbatim>\<open>eip\<close> advances by exactly 2 (short
  form) or 6 (near form), whatever bytes the memory \<open>m\<close>, and so the encoded
  displacement, holds.
\<close>

theorem cond_jump_not_taken:
  "(\<not> is_carry emu \<longrightarrow> eip (jc (emu\<lparr>memory := m\<rparr>)) = eip emu + 2)
   \<and> (is_carry emu \<longrightarrow> eip (jnc (emu\<lparr>memory := m\<rparr>)) = eip emu + 2)
   \<and> (\<not> is_zero emu \<longrightarrow> eip (jz (emu\<lparr>memory := m\<rparr>)) = eip emu + 2)
   \<and> (is_zero emu \<longrightarrow> eip (jnz (emu\<lparr>memory := m\<rparr>)) = eip emu + 2)
   \<and> (\<not> is_sign emu \<longrightarrow> eip (js (emu\<lparr>memory := m\<rparr>)) = eip emu + 2)
   \<and> (is_sign emu \<longrightarrow> eip (jns (emu\<lparr>memory := m\<rparr>)) = eip emu + 2)
   \<and> (\<not> is_overflow emu \<longrightarrow> eip (jo (emu\<lparr>memory := m\<rparr>)) = eip emu + 2)
   \<and> (is_overflow emu \<longrightarrow> eip (jno (emu\<lparr>memory := m\<rparr>)) = eip emu + 2)
   \<and> (\<not> (is_sign emu \<noteq> is_overflow emu) \<longrightarrow> eip (jl (emu\<lparr>memory := m\<rparr>)) = eip emu + 2)
   \<and> (\<not> (is_zero emu \<or> is_sign emu \<noteq> is_overflow emu) \<longrightarrow> eip (jle (emu\<lparr>memory := m\<rparr>)) = eip emu + 2)
   \<and> (\<not> is_carry emu \<longrightarrow> eip (jc32 (emu\<lparr>memory := m\<rparr>)) = eip emu + 6)
   \<and> (is_carry emu \<longrightarrow> eip (jnc32 (emu\<lparr>memory := m\<rparr>)) = eip emu + 6)
   \<and> (\<not> is_zero emu \<longrightarrow> eip (jz32 (emu\<lparr>memory := m\<rparr>)) = eip emu + 6)
   \<and> (is_zero emu \<longrightarrow> eip (jnz32 (emu\<lparr>memory := m\<rparr>)) = eip emu + 6)
   \<and> (\<not> (is_carry emu \<or> is_zero emu) \<longrightarrow> eip (jna32 (emu\<lparr>memory := m\<rparr>)) = eip emu + 6)
   \<and> (\<not> (\<not> is_carry emu \<and> \<not> is_zero emu) \<longrightarrow> eip (ja32 (emu\<lparr>memory := m\<rparr>)) = eip emu + 6)
   \<and> (\<not> (\<not> is_zero emu \<and> is_sign emu = is_overflow emu) \<longrightarrow> eip (jg32 (emu\<lparr>memory := m\<rparr>)) = eip emu + 6)"
proof -
  let ?e = "emu\<lparr>memory := m\<rparr>"
  have eip: "eip ?e = eip emu"
    by simp
  have short_pairs:
    "\<not> is_flag ?e \<Longrightarrow> eip (DEFINE_JX_j is_flag ?e) = eip emu + 2"
    "is_flag ?e \<Longrightarrow> eip (DEFINE_JX_jn is_flag ?e) = eip emu + 2" for is_flag
    by (simp_all add: DEFINE_JX_eip)
  have near_pairs:
    "\<not> is_flag ?e \<Longrightarrow> eip (DEFINE_NEAR_JX_j is_flag ?e) = eip emu + 6"
    "is_flag ?e \<Longrightarrow> eip (DEFINE_NEAR_JX_jn is_flag ?e) = eip emu + 6" for is_flag
    by (simp_all add: DEFINE_NEAR_JX_eip)
  have single_short:
    "\<not> (is_sign emu \<noteq> is_overflow emu) \<longrightarrow> eip (jl ?e) = eip emu + 2"
    "\<not> (is_zero emu \<or> is_sign emu \<noteq> is_overflow emu) \<longrightarrow> eip (jle ?e) = eip emu + 2"
    by (simp_all add: jl_def jle_def flag_query_memory)
  have single_near:
    "\<not> (is_carry emu \<or> is_zero emu) \<longrightarrow> eip (jna32 ?e) = eip emu + 6"
    "\<not> (\<not> is_carry emu \<and> \<not> is_zero emu) \<longrightarrow> eip (ja32 ?e) = eip emu + 6"
    "\<not> (\<not> is_zero emu \<and> is_sign emu = is_overflow emu) \<longrightarrow> eip (jg32 ?e) = eip emu + 6"
    by (simp_all add: jna32_def ja32_def jg32_def flag_query_memory)
  show ?thesis
    unfolding macro_jx_defs
    using short_pairs [of is_carry] short_pairs [of is_zero] short_pairs [of is_sign]
      short_pairs [of is_overflow] near_pairs [of is_carry] near_pairs [of is_zero]
      single_short single_near
    by (simp add: flag_query_memory)
qed

text \<open>
  The not-taken case on the cleared machine and on the machine with the four flags set,
  with every memory byte, hence every displacement byte, \<open>0x7F\<close>.
\<close>

theorem cond_jump_not_taken_witness:
  "eip (jc (emu0\<lparr>memory := (\<lambda>_. 0x7F)\<rparr>)) = 2
   \<and> eip (jnc (emu0\<lparr>eflags := 0x8C1, memory := (\<lambda>_. 0x7F)\<rparr>)) = 2
   \<and> eip (jz (emu0\<lparr>memory := (\<lambda>_. 0x7F)\<rparr>)) = 2
   \<and> eip (jnz (emu0\<lparr>eflags := 0x8C1, memory := (\<lambda>_. 0x7F)\<rparr>)) = 2
   \<and> eip (js (emu0\<lparr>memory := (\<lambda>_. 0x7F)\<rparr>)) = 2
   \<and> eip (jns (emu0\<lparr>eflags := 0x8C1, memory := (\<lambda>_. 0x7F)\<rparr>)) = 2
   \<and> eip (jo (emu0\<lparr>memory := (\<lambda>_. 0x7F)\<rparr>)) = 2
   \<and> eip (jno (emu0\<lparr>eflags := 0x8C1, memory := (\<lambda>_. 0x7F)\<rparr>)) = 2
   \<and> eip (jl (emu0\<lparr>memory := (\<lambda>_. 0x7F)\<rparr>)) = 2
   \<and> eip (jle (emu0\<lparr>memory := (\<lambda>_. 0x7F)\<rparr>)) = 2
   \<and> eip (jc32 (emu0\<lparr>memory := (\<lambda>_. 0x7F)\<rparr>)) = 6
   \<and> eip (jnc32 (emu0\<lparr>eflags := 0x8C1, memory := (\<lambda>_. 0x7F)\<rparr>)) = 6
   \<and> eip (jz32 (emu0\<lparr>memory := (\<lambda>_. 0x7F)\<rparr>)) = 6
   \<and> eip (jnz32 (emu0\<lparr>eflags := 0x8C1, memory := (\<lambda>_. 0x7F)\<rparr>)) = 6
   \<and> eip (jna32 (emu0\<lparr>memory := (\<lambda>_. 0x7F)\<rparr>)) = 6
   \<and> eip (ja32 (emu0\<lparr>eflags := 0x8C1, memory := (\<lambda>_. 0x7F)\<rparr>)) = 6
   \<and> eip (jg32 (emu0\<lparr>eflags := 0x8C1, memory := (\<lambda>_. 0x7F)\<rparr>)) = 6"
proof -
  have clear: "\<not> is_carry emu0" "\<not> is_zero emu0" "\<not> is_sign emu0" "\<not> is_overflow emu0"
    by (simp_all add: emu0_def flag_query_defs)
  have set: "is_carry (emu0\<lparr>eflags := 0x8C1\<rparr>)" "is_zero (emu0\<lparr>eflags := 0x8C1\<rparr>)"
    "is_sign (emu0\<lparr>eflags := 0x8C1\<rparr>)" "is_overflow (emu0\<lparr>eflags := 0x8C1\<rparr>)"
    by (simp_all add: flag_query_defs flag_defs)
  have e: "eip emu0 = 0" by (simp add: emu0_def)
  show ?thesis
    using cond_jump_not_taken [of emu0 "\<lambda>_. 0x7F"]
      cond_jump_not_taken [of "emu0\<lparr>eflags := 0x8C1\<rparr>" "\<lambda>_. 0x7F"]
    by (simp add: clear set e)
qed

text \<open>
  C10. The two handlers of each pair (\<^verbatim>\<open>jc\<close>/\<^verbatim>\<open>jnc\<close>, \<^verbatim>\<open>jz\<close>/\<^verbatim>\<open>jnz\<close>, \<^verbatim>\<open>js\<close>/\<^verbatim>\<open>jns\<close>,
  \<^verbatim>\<open>jo\<close>/\<^verbatim>\<open>jno\<close>, \<^verbatim>\<open>jc32\<close>/\<^verbatim>\<open>jnc32\<close>, \<^verbatim>\<open>jz32\<close>/\<^verbatim>\<open>jnz32\<close>, \<^verbatim>\<open>jna32\<close>/\<^verbatim>\<open>ja32\<close>) are
  complements: in every state one condition decides both, the handler for which it holds
  adds the displacement and the fixed length to \<^verbatim>\<open>eip\<close>, and the other adds the fixed
  length only.
\<close>

theorem cond_jump_pairs:
  "eip (jc emu) = eip emu + ((if is_carry emu then scast (get_sign_code8 emu 1) else 0) + 2)
   \<and> eip (jnc emu) = eip emu + ((if is_carry emu then 0 else scast (get_sign_code8 emu 1)) + 2)
   \<and> eip (jz emu) = eip emu + ((if is_zero emu then scast (get_sign_code8 emu 1) else 0) + 2)
   \<and> eip (jnz emu) = eip emu + ((if is_zero emu then 0 else scast (get_sign_code8 emu 1)) + 2)
   \<and> eip (js emu) = eip emu + ((if is_sign emu then scast (get_sign_code8 emu 1) else 0) + 2)
   \<and> eip (jns emu) = eip emu + ((if is_sign emu then 0 else scast (get_sign_code8 emu 1)) + 2)
   \<and> eip (jo emu) = eip emu + ((if is_overflow emu then scast (get_sign_code8 emu 1) else 0) + 2)
   \<and> eip (jno emu) = eip emu + ((if is_overflow emu then 0 else scast (get_sign_code8 emu 1)) + 2)
   \<and> eip (jc32 emu) = eip emu + ((if is_carry emu then get_sign_code32 emu 2 else 0) + 6)
   \<and> eip (jnc32 emu) = eip emu + ((if is_carry emu then 0 else get_sign_code32 emu 2) + 6)
   \<and> eip (jz32 emu) = eip emu + ((if is_zero emu then get_sign_code32 emu 2 else 0) + 6)
   \<and> eip (jnz32 emu) = eip emu + ((if is_zero emu then 0 else get_sign_code32 emu 2) + 6)
   \<and> eip (jna32 emu)
       = eip emu + ((if is_carry emu \<or> is_zero emu then get_sign_code32 emu 2 else 0) + 6)
   \<and> eip (ja32 emu)
       = eip emu + ((if is_carry emu \<or> is_zero emu then 0 else get_sign_code32 emu 2) + 6)"
proof -
  have de_morgan: "(\<not> is_carry emu \<and> \<not> is_zero emu) = (\<not> (is_carry emu \<or> is_zero emu))"
    by simp
  have jna: "eip (jna32 emu)
       = eip emu + ((if is_carry emu \<or> is_zero emu then get_sign_code32 emu 2 else 0) + 6)"
    by (simp add: jna32_def)
  have ja: "eip (ja32 emu)
       = eip emu + ((if is_carry emu \<or> is_zero emu then 0 else get_sign_code32 emu 2) + 6)"
    unfolding ja32_def de_morgan by simp
  show ?thesis
    unfolding macro_jx_defs
    using jna ja by (simp add: DEFINE_JX_eip DEFINE_NEAR_JX_eip)
qed

text \<open>
  Both handlers of each pair on the cleared machine and on the machine with the four flags
  set; every memory byte is \<open>0x10\<close>, so the displacements are \<open>0x10\<close> and
  \<open>0x10101010\<close>.
\<close>

theorem cond_jump_pairs_witness:
  "eip (jc (emu0\<lparr>memory := (\<lambda>_. 0x10)\<rparr>)) = 2
   \<and> eip (jnc (emu0\<lparr>memory := (\<lambda>_. 0x10)\<rparr>)) = 0x12
   \<and> eip (jz (emu0\<lparr>memory := (\<lambda>_. 0x10)\<rparr>)) = 2
   \<and> eip (jnz (emu0\<lparr>memory := (\<lambda>_. 0x10)\<rparr>)) = 0x12
   \<and> eip (js (emu0\<lparr>memory := (\<lambda>_. 0x10)\<rparr>)) = 2
   \<and> eip (jns (emu0\<lparr>memory := (\<lambda>_. 0x10)\<rparr>)) = 0x12
   \<and> eip (jo (emu0\<lparr>memory := (\<lambda>_. 0x10)\<rparr>)) = 2
   \<and> eip (jno (emu0\<lparr>memory := (\<lambda>_. 0x10)\<rparr>)) = 0x12
   \<and> eip (jc32 (emu0\<lparr>memory := (\<lambda>_. 0x10)\<rparr>)) = 6
   \<and> eip (jnc32 (emu0\<lparr>memory := (\<lambda>_. 0x10)\<rparr>)) = 0x10101016
   \<and> eip (jz32 (emu0\<lparr>memory := (\<lambda>_. 0x10)\<rparr>)) = 6
   \<and> eip (jnz32 (emu0\<lparr>memory := (\<lambda>_. 0x10)\<rparr>)) = 0x10101016
   \<and> eip (jna32 (emu0\<lparr>memory := (\<lambda>_. 0x10)\<rparr>)) = 6
   \<and> eip (ja32 (emu0\<lparr>memory := (\<lambda>_. 0x10)\<rparr>)) = 0x10101016
   \<and> eip (jc (emu0\<lparr>eflags := 0x8C1, memory := (\<lambda>_. 0x10)\<rparr>)) = 0x12
   \<and> eip (jnc (emu0\<lparr>eflags := 0x8C1, memory := (\<lambda>_. 0x10)\<rparr>)) = 2
   \<and> eip (jz (emu0\<lparr>eflags := 0x8C1, memory := (\<lambda>_. 0x10)\<rparr>)) = 0x12
   \<and> eip (jnz (emu0\<lparr>eflags := 0x8C1, memory := (\<lambda>_. 0x10)\<rparr>)) = 2
   \<and> eip (js (emu0\<lparr>eflags := 0x8C1, memory := (\<lambda>_. 0x10)\<rparr>)) = 0x12
   \<and> eip (jns (emu0\<lparr>eflags := 0x8C1, memory := (\<lambda>_. 0x10)\<rparr>)) = 2
   \<and> eip (jo (emu0\<lparr>eflags := 0x8C1, memory := (\<lambda>_. 0x10)\<rparr>)) = 0x12
   \<and> eip (jno (emu0\<lparr>eflags := 0x8C1, memory := (\<lambda>_. 0x10)\<rparr>)) = 2
   \<and> eip (jc32 (emu0\<lparr>eflags := 0x8C1, memory := (\<lambda>_. 0x10)\<rparr>)) = 0x10101016
   \<and> eip (jnc32 (emu0\<lparr>eflags := 0x8C1, memory := (\<lambda>_. 0x10)\<rparr>)) = 6
   \<and> eip (jz32 (emu0\<lparr>eflags := 0x8C1, memory := (\<lambda>_. 0x10)\<rparr>)) = 0x10101016
   \<and> eip (jnz32 (emu0\<lparr>eflags := 0x8C1, memory := (\<lambda>_. 0x10)\<rparr>)) = 6
   \<and> eip (jna32 (emu0\<lparr>eflags := 0x8C1, memory := (\<lambda>_. 0x10)\<rparr>)) = 0x10101016
   \<and> eip (ja32 (emu0\<lparr>eflags := 0x8C1, memory := (\<lambda>_. 0x10)\<rparr>)) = 6"
proof -
  let ?c = "emu0\<lparr>memory := (\<lambda>_. 0x10)\<rparr>"
  let ?s = "emu0\<lparr>eflags := 0x8C1, memory := (\<lambda>_. 0x10)\<rparr>"
  have clear: "\<not> is_carry ?c" "\<not> is_zero ?c" "\<not> is_sign ?c" "\<not> is_overflow ?c"
    by (simp_all add: emu0_def flag_query_defs)
  have set: "is_carry ?s" "is_zero ?s" "is_sign ?s" "is_overflow ?s"
    by (simp_all add: flag_query_defs flag_defs)
  have d: "get_sign_code8 ?c 1 = 0x10" "get_sign_code8 ?s 1 = 0x10"
    "get_sign_code32 ?c 2 = 0x10101010" "get_sign_code32 ?s 2 = 0x10101010"
    by (simp_all add: get_sign_code8_def get_sign_code32_def get_code32_def get_code8_def)
  have sc: "(scast (0x10 :: u8) :: u32) = 0x10"
    by simp
  have e: "eip ?c = 0" "eip ?s = 0" by (simp_all add: emu0_def)
  show ?thesis
    using cond_jump_pairs [of ?c] cond_jump_pairs [of ?s]
    by (simp add: clear set d e sc)
qed

section \<open>Advance of the instruction pointer\<close>

lemma get_code8_eip1 [simp]: "get_code8 (emu\<lparr>eip := eip emu + 1\<rparr>) 0 = get_code8 emu 1"
  by (simp add: get_code8_def)

lemma parse_modrm_opcode:
  "opcode (snd (parse_modrm emu)) = take_bit 3 (drop_bit 3 (get_code8 emu 0))"
  by (simp add: parse_modrm_def Let_def)

lemma parse_modrm_rm:
  "rm (snd (parse_modrm emu)) = take_bit 3 (get_code8 emu 0)"
  by (simp add: parse_modrm_def Let_def)


lemma set_register32_eip_upd [simp]:
  "eip (emu\<lparr>registers := r\<rparr>) = eip emu"
  by simp








section \<open>Group opcodes\<close>

text \<open>
  C9. For the group opcodes \<open>0x83\<close> and \<open>0xFF\<close>: when the reg/opcode field that the
  decoder returns for the ModR/M byte after the opcode is not an implemented sub-opcode
  (0, 5, 7 for \<open>0x83\<close>; 0 for \<open>0xFF\<close>), the handler ends in the fatal error that
  carries the group opcode and the value of the field. No state is returned: no
  sub-handler ran and nothing is retried.
\<close>

theorem group_unimplemented:
  "(opcode (snd (parse_modrm (emu\<lparr>eip := eip emu + 1\<rparr>))) \<notin> {0, 5, 7} \<longrightarrow>
      code_83 emu
        = Inl (Not_implemented 0x83 (opcode (snd (parse_modrm (emu\<lparr>eip := eip emu + 1\<rparr>))))))
   \<and> (opcode (snd (parse_modrm (emu\<lparr>eip := eip emu + 1\<rparr>))) \<noteq> 0 \<longrightarrow>
      code_ff emu
        = Inl (Not_implemented 0xFF (opcode (snd (parse_modrm (emu\<lparr>eip := eip emu + 1\<rparr>))))))"
proof -
  obtain emu2 modrm where p: "parse_modrm (emu\<lparr>eip := eip emu + 1\<rparr>) = (emu2, modrm)"
    by (cases "parse_modrm (emu\<lparr>eip := eip emu + 1\<rparr>)")
  have g83: "code_83 emu = Inl (Not_implemented 0x83 (opcode modrm))"
    if "opcode modrm \<notin> {0, 5, 7}"
    using that by (simp add: code_83_def p)
  have gff: "code_ff emu = Inl (Not_implemented 0xFF (opcode modrm))"
    if "opcode modrm \<noteq> 0"
    using that by (simp add: code_ff_def p)
  show ?thesis
    using g83 gff by (simp add: p)
qed

text \<open>Sub-opcode 1 (ModR/M byte \<open>0xC8\<close>) under both group opcodes.\<close>

theorem group_unimplemented_witness:
  "code_83 (emu0\<lparr>memory := (\<lambda>_. 0)(0 := 0x83, 1 := 0xC8)\<rparr>) = Inl (Not_implemented 0x83 1)
   \<and> code_ff (emu0\<lparr>memory := (\<lambda>_. 0)(0 := 0xFF, 1 := 0xC8)\<rparr>) = Inl (Not_implemented 0xFF 1)"
  using group_unimplemented [of "emu0\<lparr>memory := (\<lambda>_. 0)(0 := 0x83, 1 := 0xC8)\<rparr>"]
    group_unimplemented [of "emu0\<lparr>memory := (\<lambda>_. 0)(0 := 0xFF, 1 := 0xC8)\<rparr>"]
  by (simp add: parse_modrm_opcode get_code8_def emu0_def)

section \<open>The dispatch table\<close>

lemma upt8: "[0..<8] = [0, 1, 2, 3, 4, 5, 6, 7]"
  by (simp add: upt_rec)

lemma length_bind8 [simp]: "length (bind8 first h t) = length t"
  by (simp add: bind8_def upt8)

lemma nth_bind8:
  "first + 8 \<le> length t \<Longrightarrow>
   bind8 first h t ! j = (if first \<le> j \<and> j < first + 8 then Some h else t ! j)"
  by (auto simp add: bind8_def upt8 nth_list_update)

lemma table_nth:
  "j < 256 \<Longrightarrow> init_instructions ! j =
     (if j = 0x01 then Some H_add_rm32_r32
      else if j = 0x3B then Some H_cmp_r32_rm32
      else if 0x50 \<le> j \<and> j \<le> 0x57 then Some H_push_r32
      else if 0x58 \<le> j \<and> j \<le> 0x5F then Some H_pop_r32
      else if j = 0x68 then Some H_push_imm32
      else if j = 0x6A then Some H_push_imm8
      else if j = 0x70 then Some H_jo
      else if j = 0x71 then Some H_jno
      else if j = 0x72 then Some H_jc
      else if j = 0x73 then Some H_jnc
      else if j = 0x74 then Some H_jz
      else if j = 0x75 then Some H_jnz
      else if j = 0x78 then Some H_js
      else if j = 0x79 then Some H_jns
      else if j = 0x7C then Some H_jl
      else if j = 0x7E then Some H_jle
      else if j = 0x83 then Some H_code_83
      else if j = 0x89 then Some H_mov_rm32_r32
      else if j = 0x8B then Some H_mov_r32_rm32
      else if 0xB8 \<le> j \<and> j \<le> 0xBF then Some H_mov_r32_imm32
      else if j = 0xC3 then Some H_ret
      else if j = 0xC7 then Some H_mov_rm32_imm32
      else if j = 0xC9 then Some H_leave
      else if j = 0xE8 then Some H_call_rel32
      else if j = 0xE9 then Some H_near_jump
      else if j = 0xEB then Some H_short_jump
      else if j = 0xFF then Some H_code_ff
      else None)"
  unfolding init_instructions_def Let_def
  by (simp add: nth_bind8 nth_list_update)


lemma unat_u8_less: "unat (code :: u8) < 256"
  using unsigned_less [of code, where ?'a = nat] by simp

lemma instructions_table: "instructions code = opcode_table code"
  unfolding instructions_def opcode_table_def
  by (simp add: table_nth [OF unat_u8_less] word_le_nat_alt word_unat_eq_iff)

section \<open>Call and return\<close>

lemma get_set_register32:
  "i < length (registers emu) \<Longrightarrow> get_register32 (set_register32 emu i v) i = v"
  by (simp add: get_register32_def)

lemma get_register32_cong:
  "registers e1 = registers e2 \<Longrightarrow> get_register32 e1 i = get_register32 e2 i"
  by (simp add: get_register32_def)

lemma regs_ok_ESP: "regs_ok emu \<Longrightarrow> ESP < length (registers emu)"
  by (simp add: regs_ok_def REGISTERS_COUNT_def ESP_def)

lemma push32_ESP:
  "regs_ok emu \<Longrightarrow> get_register32 (push32 emu v) ESP = get_register32 emu ESP - 4"
  by (simp add: get_register32_def regs_ok_ESP)

lemma push32_top:
  "get_memory32 (push32 emu v) (get_register32 emu ESP - 4) = v"
  by (simp add: push32_def Let_def)

lemma get_memory32_eip_upd [simp]:
  "get_memory32 (emu\<lparr>eip := x\<rparr>) a = get_memory32 emu a"
  by (simp add: get_memory32_def get_memory8_def)

lemma get_register32_eip_upd [simp]:
  "get_register32 (emu\<lparr>eip := x\<rparr>) i = get_register32 emu i"
  by (simp add: get_register32_def)

lemma call_rel32_eip:
  "eip (call_rel32 emu) = eip emu + 5 + get_sign_code32 emu 1"
  by (simp add: call_rel32_def Let_def)

lemma call_rel32_ESP:
  "regs_ok emu \<Longrightarrow> get_register32 (call_rel32 emu) ESP = get_register32 emu ESP - 4"
  by (simp add: call_rel32_def Let_def push32_ESP)

lemma call_rel32_top:
  "get_memory32 (call_rel32 emu) (get_register32 emu ESP - 4) = eip emu + 5"
  by (simp add: call_rel32_def Let_def push32_top)

lemma ret_eip: "eip (ret emu) = get_memory32 emu (get_register32 emu ESP)"
  by (simp add: ret_def split_beta)

lemma ret_ESP:
  "regs_ok emu \<Longrightarrow> get_register32 (ret emu) ESP = get_register32 emu ESP + 4"
  by (simp add: ret_def split_beta get_register32_def regs_ok_ESP)

lemma regs_ok_call_rel32: "regs_ok emu \<Longrightarrow> regs_ok (call_rel32 emu)"
  by (simp add: regs_ok_def call_rel32_def Let_def)

text \<open>
  C6. For every address \<open>A = eip emu\<close>, stack pointer \<open>S\<close> (register \<^verbatim>\<open>ESP\<close>) and
  32-bit offset \<open>d\<close> (the four bytes after the opcode): \<^verbatim>\<open>call rel32\<close> pushes \<open>A + 5\<close>,
  leaving \<^verbatim>\<open>ESP\<close> at \<open>S - 4\<close>, and sets \<^verbatim>\<open>eip\<close> to \<open>A + 5 + d\<close>. A \<^verbatim>\<open>ret\<close> executed in
  any later state in which the stack is balanced, that is, \<^verbatim>\<open>ESP\<close> is where the call
  left it and the pushed word is still there, sets \<^verbatim>\<open>eip\<close> to \<open>A + 5\<close> and \<^verbatim>\<open>ESP\<close> to
  \<open>S\<close>. The register file has its eight entries in both states.
\<close>

theorem call_ret_pairing:
  assumes "regs_ok emu" and "regs_ok later"
    and "get_register32 later ESP = get_register32 (call_rel32 emu) ESP"
    and "get_memory32 later (get_register32 later ESP)
           = get_memory32 (call_rel32 emu) (get_register32 (call_rel32 emu) ESP)"
  shows "eip (call_rel32 emu) = eip emu + 5 + get_sign_code32 emu 1
     \<and> get_register32 (call_rel32 emu) ESP = get_register32 emu ESP - 4
     \<and> get_memory32 (call_rel32 emu) (get_register32 (call_rel32 emu) ESP) = eip emu + 5
     \<and> eip (ret later) = eip emu + 5
     \<and> get_register32 (ret later) ESP = get_register32 emu ESP"
proof -
  have sp: "get_register32 (call_rel32 emu) ESP = get_register32 emu ESP - 4"
    using assms(1) by (rule call_rel32_ESP)
  have top: "get_memory32 (call_rel32 emu) (get_register32 (call_rel32 emu) ESP) = eip emu + 5"
    unfolding sp by (rule call_rel32_top)
  have "eip (ret later) = eip emu + 5"
    unfolding ret_eip assms(4) by (rule top)
  moreover have "get_register32 (ret later) ESP = get_register32 emu ESP"
    unfolding ret_ESP [OF assms(2)] assms(3) sp by simp
  ultimately show ?thesis
    using sp top call_rel32_eip by blast
qed

text \<open>The call of \<open>emu_call\<close>, followed at once by \<^verbatim>\<open>ret\<close>.\<close>

theorem call_ret_pairing_witness:
  "regs_ok emu_call
   \<and> eip (call_rel32 emu_call) = 0x35
   \<and> get_register32 (call_rel32 emu_call) ESP = 0xFC
   \<and> get_memory32 (call_rel32 emu_call) 0xFC = 0x15
   \<and> eip (ret (call_rel32 emu_call)) = 0x15
   \<and> get_register32 (ret (call_rel32 emu_call)) ESP = 0x100"
proof -
  have ok: "regs_ok emu_call"
    by (simp add: regs_ok_def emu_call_def emu0_def REGISTERS_COUNT_def)
  have d: "get_sign_code32 emu_call 1 = 0x20"
    by (simp add: get_sign_code32_def get_code32_def get_code8_def emu_call_def emu0_def)
  have s: "get_register32 emu_call ESP = 0x100" and a: "eip emu_call = 0x10"
    by (simp_all add: get_register32_def emu_call_def emu0_def ESP_def)
  show ?thesis
    using call_ret_pairing [OF ok regs_ok_call_rel32 [OF ok] refl refl] ok
    by (auto simp add: d s a)
qed

section \<open>Encoded length of the handlers that are not control transfers\<close>




section \<open>The ModR/M decoder and the instruction pointer\<close>





section \<open>Opcode bindings\<close>

text \<open>
  C5, as amended. The table built by \<^verbatim>\<open>init_instructions\<close> has 256 entries and binds
  every one-byte opcode as tabulated, among them \<open>0x50\<close>-\<open>0x57\<close> to \<^verbatim>\<open>push r32\<close>,
  \<open>0x58\<close>-\<open>0x5F\<close> to \<^verbatim>\<open>pop r32\<close> and \<open>0xB8\<close>-\<open>0xBF\<close> to \<^verbatim>\<open>mov r32, imm32\<close>; every
  other entry is empty. The entry of the prefix \<open>0x0F\<close> is empty, and no entry is one
  of the near conditional jumps.
\<close>

theorem dispatch_table_bindings:
  "instructions code = opcode_table code
   \<and> length init_instructions = 256
   \<and> instructions 0x0F = None
   \<and> set init_instructions
        \<inter> {Some H_jc32, Some H_jnc32, Some H_jz32, Some H_jnz32,
            Some H_jna32, Some H_ja32, Some H_jg32} = {}"
proof -
  have len: "length init_instructions = 256"
    by (simp add: init_instructions_def Let_def)
  have none: "instructions 0x0F = None"
    by (simp add: instructions_table opcode_table_def)
  have "x \<notin> {Some H_jc32, Some H_jnc32, Some H_jz32, Some H_jnz32,
            Some H_jna32, Some H_ja32, Some H_jg32}" if "x \<in> set init_instructions" for x
  proof -
    from that obtain j where "j < 256" and "x = init_instructions ! j"
      unfolding in_set_conv_nth len by blast
    then show ?thesis
      by (simp add: table_nth)
  qed
  then have near: "set init_instructions
        \<inter> {Some H_jc32, Some H_jnc32, Some H_jz32, Some H_jnz32,
            Some H_jna32, Some H_ja32, Some H_jg32} = {}"
    by blast
  show ?thesis using instructions_table len none near by blast
qed

text \<open>
  C5 as stated fails: the table has no handler for the prefix byte \<open>0x0F\<close>, and
  \<^verbatim>\<open>jz32\<close> (\<open>0F 84\<close>) is bound nowhere in it.
\<close>

theorem near_jumps_unbound: "instructions 0x0F = None \<and> Some H_jz32 \<notin> set init_instructions"
proof -
  have len: "length init_instructions = 256"
    by (simp add: init_instructions_def Let_def)
  have "instructions 0x0F = None"
    by (simp add: instructions_def table_nth)
  moreover have "x \<noteq> Some H_jz32" if "x \<in> set init_instructions" for x
  proof -
    from that obtain j where "j < 256" and "x = init_instructions ! j"
      unfolding in_set_conv_nth len by blast
    then show ?thesis
      by (simp add: table_nth)
  qed
  ultimately show ?thesis by blast
qed

section \<open>The group \<open>83\<close>: add, sub and cmp with an 8-bit immediate\<close>



lemma eflags_eip_upd [simp]: "eflags (emu\<lparr>eip := x\<rparr>) = eflags emu"
  by simp









text \<open>
  C8. \<^verbatim>\<open>add rm32, r32\<close> (opcode \<open>01\<close>) and \<^verbatim>\<open>add rm32, imm8\<close> (opcode \<open>83\<close>, sub-opcode
  0) leave \<^verbatim>\<open>eflags\<close> as it is, while \<^verbatim>\<open>sub\<close> and \<^verbatim>\<open>cmp\<close> of the same group leave the
  flags that \<^verbatim>\<open>update_eflags_sub\<close> computes from the operand and the immediate.
\<close>

theorem add_keeps_eflags:
  "eflags (add_rm32_r32 emu) = eflags emu
   \<and> eflags (add_rm32_imm8 emu modrm) = eflags emu
   \<and> (opcode (snd (parse_modrm (emu\<lparr>eip := eip emu + 1\<rparr>))) = 0 \<longrightarrow>
        (\<exists>emu'. code_83 emu = Inr emu' \<and> eflags emu' = eflags emu))
   \<and> eflags (sub_rm32_imm8 emu modrm)
       = eflags (update_eflags_sub emu (get_rm32 emu modrm) (scast (get_sign_code8 emu 0))
                  (ucast (get_rm32 emu modrm) - ucast (scast (get_sign_code8 emu 0) :: u32)))
   \<and> eflags (cmp_rm32_imm8 emu modrm)
       = eflags (update_eflags_sub emu (get_rm32 emu modrm) (scast (get_sign_code8 emu 0))
                  (ucast (get_rm32 emu modrm) - ucast (scast (get_sign_code8 emu 0) :: u32)))"
proof -
  have a1: "eflags (add_rm32_r32 emu) = eflags emu"
    by (simp add: add_rm32_r32_def Let_def split_beta)
  have a2: "eflags (add_rm32_imm8 e m) = eflags e" for e m
    by (simp add: add_rm32_imm8_def Let_def)
  have a3: "\<exists>emu'. code_83 emu = Inr emu' \<and> eflags emu' = eflags emu"
    if "opcode (snd (parse_modrm (emu\<lparr>eip := eip emu + 1\<rparr>))) = 0"
    using that by (simp add: code_83_def Let_def split_beta a2)
  have s: "eflags (sub_rm32_imm8 emu modrm)
       = eflags (update_eflags_sub emu (get_rm32 emu modrm) (scast (get_sign_code8 emu 0))
                  (ucast (get_rm32 emu modrm) - ucast (scast (get_sign_code8 emu 0) :: u32)))"
    unfolding sub_rm32_imm8_def Let_def
    by (rule eflags_update_eflags_sub_cong) simp
  have c: "eflags (cmp_rm32_imm8 emu modrm)
       = eflags (update_eflags_sub emu (get_rm32 emu modrm) (scast (get_sign_code8 emu 0))
                  (ucast (get_rm32 emu modrm) - ucast (scast (get_sign_code8 emu 0) :: u32)))"
    unfolding cmp_rm32_imm8_def Let_def
    by (rule eflags_update_eflags_sub_cong) simp
  show ?thesis
    using a1 a2 a3 s c by blast
qed

text \<open>
  \<^verbatim>\<open>add eax, 1\<close> on \<open>0xFFFFFFFF\<close> through the group handler, and \<^verbatim>\<open>add rm32, r32\<close> on
  the same state: the flags stay \<open>0x8C1\<close>.
\<close>

theorem add_keeps_eflags_witness:
  "opcode (snd (parse_modrm (emu_add\<lparr>eip := eip emu_add + 1\<rparr>))) = 0
   \<and> (\<exists>emu'. code_83 emu_add = Inr emu' \<and> eflags emu' = 0x8C1)
   \<and> eflags (add_rm32_r32 emu_add) = 0x8C1"
proof -
  have b: "get_code8 emu_add 1 = 0xC0"
    by (simp add: get_code8_def emu_add_def emu0_def)
  have f: "eflags emu_add = 0x8C1"
    by (simp add: emu_add_def)
  show ?thesis
    using add_keeps_eflags [of emu_add] by (simp add: parse_modrm_opcode b f)
qed

end
